theory Spec2Isabelle
  imports Main
begin

section \<open>Error values\<close>

text \<open>
  The package \<open>errtypes\<close> works on values of Go's interface type \<open>error\<close>. Such a value
  is either \<open>nil\<close> or a value of some concrete type together with that type's method
  set. What the package looks at is the method set: \<open>Error() string\<close>, the marker methods
  \<open>IsBadInput() bool\<close>, \<open>IsUnauthenticated() bool\<close>, \<open>IsForbidden() bool\<close>,
  \<open>IsNotFound() bool\<close>, \<open>IsConflict() bool\<close>, and \<open>Cause() error\<close>, which
  \<open>errors.Cause\<close> of \<open>github.com/pkg/errors\<close> follows.

  The five struct types of the package are one constructor each; their only field is the
  message \<open>s\<close>. Every error type declared anywhere else is \<open>Foreign\<close>: its message, what
  its \<open>Cause\<close> method returns (\<open>None\<close> when the type has no such method), and for each
  marker interface what its method returns (\<open>None\<close> when the type does not implement the
  interface). A plain error made by \<open>errors.New\<close> is a \<open>Foreign\<close> value with no
  \<open>Cause\<close> method and no marker method; a wrapping layer is a \<open>Foreign\<close> value whose
  \<open>Cause\<close> method returns the wrapped error.

  Values of the datatype are finite, so a causal chain is a finite list of links that ends in a
  root, with no cycle.
\<close>

record markers =
  m_BadInput :: "bool option"
  m_Unauthenticated :: "bool option"
  m_Forbidden :: "bool option"
  m_NotFound :: "bool option"
  m_Conflict :: "bool option"

datatype goerror =
    badInputError string
  | unauthenticatedError string
  | forbiddenError string
  | notFoundError string
  | conflictError string
  | Foreign string "goerror option option" markers

text \<open>An interface value of type \<open>error\<close>; \<open>None\<close> is \<open>nil\<close>.\<close>

type_synonym error = "goerror option"

datatype panic = Panic string | NilDereference

definition no_markers :: markers where
  "no_markers = \<lparr>m_BadInput = None, m_Unauthenticated = None, m_Forbidden = None,
     m_NotFound = None, m_Conflict = None\<rparr>"

subsection \<open>Methods\<close>

text \<open>\<open>func (e badInputError) Error() string { return e.s }\<close> and its four siblings.\<close>

fun Error :: "goerror \<Rightarrow> string" where
  "Error (badInputError s) = s"
| "Error (unauthenticatedError s) = s"
| "Error (forbiddenError s) = s"
| "Error (notFoundError s) = s"
| "Error (conflictError s) = s"
| "Error (Foreign m c k) = m"

text \<open>Calling \<open>Error()\<close> through the interface: on \<open>nil\<close> the call panics.\<close>

fun call_Error :: "error \<Rightarrow> panic + string" where
  "call_Error None = Inl NilDereference"
| "call_Error (Some e) = Inr (Error e)"

text \<open>
  The type assertion \<open>x.(BadInput)\<close> on a non-nil value followed by the call of
  \<open>IsBadInput()\<close>: \<open>None\<close> when the assertion fails, otherwise the method's result.
  \<open>badInputError\<close> has the method and returns \<open>true\<close>; the other four structs do not
  have it. Likewise for the other four interfaces.
\<close>

fun method_IsBadInput :: "goerror \<Rightarrow> bool option" where
  "method_IsBadInput (badInputError s) = Some True"
| "method_IsBadInput (Foreign m c k) = m_BadInput k"
| "method_IsBadInput _ = None"

fun method_IsUnauthenticated :: "goerror \<Rightarrow> bool option" where
  "method_IsUnauthenticated (unauthenticatedError s) = Some True"
| "method_IsUnauthenticated (Foreign m c k) = m_Unauthenticated k"
| "method_IsUnauthenticated _ = None"

fun method_IsForbidden :: "goerror \<Rightarrow> bool option" where
  "method_IsForbidden (forbiddenError s) = Some True"
| "method_IsForbidden (Foreign m c k) = m_Forbidden k"
| "method_IsForbidden _ = None"

fun method_IsNotFound :: "goerror \<Rightarrow> bool option" where
  "method_IsNotFound (notFoundError s) = Some True"
| "method_IsNotFound (Foreign m c k) = m_NotFound k"
| "method_IsNotFound _ = None"

fun method_IsConflict :: "goerror \<Rightarrow> bool option" where
  "method_IsConflict (conflictError s) = Some True"
| "method_IsConflict (Foreign m c k) = m_Conflict k"
| "method_IsConflict _ = None"

text \<open>
  The assertion \<open>err.(causer)\<close> followed by the call of \<open>Cause()\<close>. None of the five
  structs has a \<open>Cause\<close> method.
\<close>

fun method_Cause :: "goerror \<Rightarrow> error option" where
  "method_Cause (Foreign m c k) = c"
| "method_Cause _ = None"

subsection \<open>The root of a causal chain\<close>

text \<open>
  \<open>errors.Cause\<close> belongs to \<open>github.com/pkg/errors\<close>, not to this package. It is the loop
  \<^verbatim>\<open>
  for err != nil {
      cause, ok := err.(causer)
      if !ok { break }
      err = cause.Cause()
  }
  return err
  \<close>
  which is what the specification calls resolving to the root cause: follow the cause links
  until none remains. A layer whose \<open>Cause\<close> method returns \<open>nil\<close> makes the result
  \<open>nil\<close>.
\<close>

function Cause :: "error \<Rightarrow> error" where
  "Cause None = None"
| "Cause (Some e) = (case method_Cause e of None \<Rightarrow> Some e | Some c \<Rightarrow> Cause c)"
  by pat_completeness auto
termination
  apply (relation "measure (size_option size)")
   apply simp
  subgoal for e c by (cases e) auto
  done

text \<open>The number of times the loop calls a \<open>Cause()\<close> method, i.e. of unwrapping steps.\<close>

function Cause_calls :: "error \<Rightarrow> nat" where
  "Cause_calls None = 0"
| "Cause_calls (Some e) = (case method_Cause e of None \<Rightarrow> 0 | Some c \<Rightarrow> Suc (Cause_calls c))"
  by pat_completeness auto
termination
  apply (relation "measure (size_option size)")
   apply simp
  subgoal for e c by (cases e) auto
  done

section \<open>The package\<close>

subsection \<open>Predicates\<close>

text \<open>
  \<^verbatim>\<open>
  func IsBadInput(err error) bool {
      bi, ok := errors.Cause(err).(BadInput)
      return ok && bi.IsBadInput()
  }
  \<close>
  A type assertion on a \<open>nil\<close> interface value fails (\<open>ok\<close> is false).
\<close>

definition IsBadInput :: "error \<Rightarrow> bool" where
  "IsBadInput err =
     (case Cause err of None \<Rightarrow> False
      | Some r \<Rightarrow> (case method_IsBadInput r of None \<Rightarrow> False | Some b \<Rightarrow> b))"

definition IsUnauthenticated :: "error \<Rightarrow> bool" where
  "IsUnauthenticated err =
     (case Cause err of None \<Rightarrow> False
      | Some r \<Rightarrow> (case method_IsUnauthenticated r of None \<Rightarrow> False | Some b \<Rightarrow> b))"

definition IsForbidden :: "error \<Rightarrow> bool" where
  "IsForbidden err =
     (case Cause err of None \<Rightarrow> False
      | Some r \<Rightarrow> (case method_IsForbidden r of None \<Rightarrow> False | Some b \<Rightarrow> b))"

definition IsNotFound :: "error \<Rightarrow> bool" where
  "IsNotFound err =
     (case Cause err of None \<Rightarrow> False
      | Some r \<Rightarrow> (case method_IsNotFound r of None \<Rightarrow> False | Some b \<Rightarrow> b))"

definition IsConflict :: "error \<Rightarrow> bool" where
  "IsConflict err =
     (case Cause err of None \<Rightarrow> False
      | Some r \<Rightarrow> (case method_IsConflict r of None \<Rightarrow> False | Some b \<Rightarrow> b))"

subsection \<open>Constructors\<close>

text \<open>\<open>func NewBadInput(s string) error { return badInputError{s: s} }\<close> and siblings.\<close>

definition NewBadInput :: "string \<Rightarrow> error" where
  "NewBadInput s = Some (badInputError s)"

definition NewUnauthenticated :: "string \<Rightarrow> error" where
  "NewUnauthenticated s = Some (unauthenticatedError s)"

definition NewForbidden :: "string \<Rightarrow> error" where
  "NewForbidden s = Some (forbiddenError s)"

definition NewNotFound :: "string \<Rightarrow> error" where
  "NewNotFound s = Some (notFoundError s)"

definition NewConflict :: "string \<Rightarrow> error" where
  "NewConflict s = Some (conflictError s)"

subsection \<open>Status mapping\<close>

text \<open>
  \<^verbatim>\<open>
  func HTTPStatusCode(err error) int {
      if err == nil { panic("called with nil error") }
      if IsBadInput(err) { return 400 } else if IsUnauthenticated(err) { return 401 }
      else if IsForbidden(err) { return 403 } else if IsNotFound(err) { return 404 }
      else if IsConflict(err) { return 409 } else { return 500 }
  }
  \<close>
\<close>

definition HTTPStatusCode :: "error \<Rightarrow> panic + int" where
  "HTTPStatusCode err =
     (if err = None then Inl (Panic ''called with nil error'')
      else if IsBadInput err then Inr 400
      else if IsUnauthenticated err then Inr 401
      else if IsForbidden err then Inr 403
      else if IsNotFound err then Inr 404
      else if IsConflict err then Inr 409
      else Inr 500)"

subsection \<open>Formatting constructors\<close>

text \<open>
  The variadic arguments \<open>...interface{}\<close>: the operands used here are strings and
  integers.
\<close>

datatype arg = AString string | AInt int

text \<open>
  \<open>fmt.Sprintf\<close> belongs to Go's standard library, not to this package, so the
  constructors take the formatter as their first argument:
  \<open>func NewBadInputf(s string, i ...interface{}) error {
     return badInputError{s: fmt.Sprintf(s, i...)} }\<close> and siblings.
\<close>

definition NewBadInputf :: "(string \<Rightarrow> arg list \<Rightarrow> string) \<Rightarrow> string \<Rightarrow> arg list \<Rightarrow> error" where
  "NewBadInputf sprintf s i = Some (badInputError (sprintf s i))"

definition NewUnauthenticatedf :: "(string \<Rightarrow> arg list \<Rightarrow> string) \<Rightarrow> string \<Rightarrow> arg list \<Rightarrow> error" where
  "NewUnauthenticatedf sprintf s args = Some (unauthenticatedError (sprintf s args))"

definition NewForbiddenf :: "(string \<Rightarrow> arg list \<Rightarrow> string) \<Rightarrow> string \<Rightarrow> arg list \<Rightarrow> error" where
  "NewForbiddenf sprintf s i = Some (forbiddenError (sprintf s i))"

definition NewNotFoundf :: "(string \<Rightarrow> arg list \<Rightarrow> string) \<Rightarrow> string \<Rightarrow> arg list \<Rightarrow> error" where
  "NewNotFoundf sprintf s i = Some (notFoundError (sprintf s i))"

definition NewConflictf :: "(string \<Rightarrow> arg list \<Rightarrow> string) \<Rightarrow> string \<Rightarrow> arg list \<Rightarrow> error" where
  "NewConflictf sprintf s i = Some (conflictError (sprintf s i))"

text \<open>
  A formatter to run the constructors with: the directives \<open>%v\<close>, \<open>%s\<close>, \<open>%d\<close> and
  \<open>%%\<close> of \<open>fmt.Sprintf\<close> on string and integer operands, without flags, width or
  precision, together with the markers \<open>fmt\<close> writes for a missing operand, an operand of
  the wrong type, a format that ends in \<open>%\<close> and operands left over. Any other verb
  character is written with the wrong-type marker; \<open>fmt\<close> knows more verbs than these, so
  the model stands for \<open>fmt.Sprintf\<close> only on formats whose directives are the four above.
\<close>

definition digit :: "nat \<Rightarrow> char" where
  "digit n = ''0123456789'' ! (n mod 10)"

function show_nat :: "nat \<Rightarrow> string" where
  "show_nat n = (if n < 10 then [digit n] else show_nat (n div 10) @ [digit n])"
  by pat_completeness auto
termination
  by (relation "measure id") auto

declare show_nat.simps [simp del]

definition show_int :: "int \<Rightarrow> string" where
  "show_int i = (if i < 0 then CHR ''-'' # show_nat (nat (- i)) else show_nat (nat i))"

fun type_name :: "arg \<Rightarrow> string" where
  "type_name (AString s) = ''string''"
| "type_name (AInt i) = ''int''"

fun default_format :: "arg \<Rightarrow> string" where
  "default_format (AString s) = s"
| "default_format (AInt i) = show_int i"

definition bad_verb :: "char \<Rightarrow> arg \<Rightarrow> string" where
  "bad_verb c a = ''%!'' @ [c] @ ''('' @ type_name a @ ''='' @ default_format a @ '')''"

fun print_arg :: "char \<Rightarrow> arg \<Rightarrow> string" where
  "print_arg c (AString s) =
     (if c = CHR ''v'' \<or> c = CHR ''s'' then s else bad_verb c (AString s))"
| "print_arg c (AInt i) =
     (if c = CHR ''v'' \<or> c = CHR ''d'' then show_int i else bad_verb c (AInt i))"

fun comma_sep :: "string list \<Rightarrow> string" where
  "comma_sep [] = []"
| "comma_sep [x] = x"
| "comma_sep (x # y # ys) = x @ '', '' @ comma_sep (y # ys)"

definition extra_args :: "arg list \<Rightarrow> string" where
  "extra_args as =
     (if as = [] then []
      else ''%!(EXTRA '' @ comma_sep (map (\<lambda>a. type_name a @ ''='' @ default_format a) as) @ '')'')"

fun Sprintf :: "string \<Rightarrow> arg list \<Rightarrow> string" where
  "Sprintf [] as = extra_args as"
| "Sprintf (c # f) as =
     (if c \<noteq> CHR ''%'' then c # Sprintf f as
      else (case f of
              [] \<Rightarrow> ''%!(NOVERB)'' @ extra_args as
            | v # f' \<Rightarrow>
                if v = CHR ''%'' then CHR ''%'' # Sprintf f' as
                else (case as of
                        [] \<Rightarrow> ''%!'' @ [v] @ ''(MISSING)'' @ Sprintf f' []
                      | a # as' \<Rightarrow> print_arg v a @ Sprintf f' as')))"

subsection \<open>Wrapping\<close>

text \<open>
  A wrapping layer over \<open>err\<close> is an error of a foreign type whose \<open>Cause\<close> method
  returns \<open>err\<close>; its own message and its own marker methods are arbitrary.
  \<open>wrapped ls err\<close> puts one layer per element of \<open>ls\<close> around \<open>err\<close>, the first
  element outermost.
\<close>

definition layer :: "string \<Rightarrow> markers \<Rightarrow> error \<Rightarrow> error" where
  "layer m k err = Some (Foreign m (Some err) k)"

fun wrapped :: "(string \<times> markers) list \<Rightarrow> error \<Rightarrow> error" where
  "wrapped [] err = err"
| "wrapped (l # ls) err = layer (fst l) (snd l) (wrapped ls err)"

text \<open>
  The two functions of \<open>github.com/pkg/errors\<close> that callers build chains with:
  \<open>errors.New\<close> makes a plain error, \<open>errors.Wrap\<close> puts a layer with a message around
  an error and returns \<open>nil\<close> for \<open>nil\<close>.
\<close>

definition errors_New :: "string \<Rightarrow> error" where
  "errors_New m = Some (Foreign m None no_markers)"

definition errors_Wrap :: "error \<Rightarrow> string \<Rightarrow> error" where
  "errors_Wrap err m =
     (case err of None \<Rightarrow> None
      | Some e \<Rightarrow> layer (m @ '': '' @ Error e) no_markers err)"

subsection \<open>The categories as a family\<close>

text \<open>
  The package repeats one pattern five times. To speak about "every category" the five
  constructors, predicates and status codes are indexed by a category.
\<close>

datatype category = BadInput | Unauthenticated | Forbidden | NotFound | Conflict

fun New :: "category \<Rightarrow> string \<Rightarrow> error" where
  "New BadInput = NewBadInput"
| "New Unauthenticated = NewUnauthenticated"
| "New Forbidden = NewForbidden"
| "New NotFound = NewNotFound"
| "New Conflict = NewConflict"

fun Newf :: "category \<Rightarrow> (string \<Rightarrow> arg list \<Rightarrow> string) \<Rightarrow> string \<Rightarrow> arg list \<Rightarrow> error" where
  "Newf BadInput = NewBadInputf"
| "Newf Unauthenticated = NewUnauthenticatedf"
| "Newf Forbidden = NewForbiddenf"
| "Newf NotFound = NewNotFoundf"
| "Newf Conflict = NewConflictf"

fun Is :: "category \<Rightarrow> error \<Rightarrow> bool" where
  "Is BadInput = IsBadInput"
| "Is Unauthenticated = IsUnauthenticated"
| "Is Forbidden = IsForbidden"
| "Is NotFound = IsNotFound"
| "Is Conflict = IsConflict"

text \<open>
  The status-mapping function as the specification words it: test the categories in the
  fixed priority order, return the code of the first that matches, 500 if none does.
\<close>

definition priority_table :: "(category \<times> int) list" where
  "priority_table =
     [(BadInput, 400), (Unauthenticated, 401), (Forbidden, 403), (NotFound, 404), (Conflict, 409)]"

definition first_matching_code :: "error \<Rightarrow> int" where
  "first_matching_code err =
     (case find (\<lambda>p. Is (fst p) err) priority_table of None \<Rightarrow> 500 | Some p \<Rightarrow> snd p)"

section \<open>Properties\<close>

subsection \<open>Auxiliary facts\<close>

lemmas New_defs =
  NewBadInput_def NewUnauthenticated_def NewForbidden_def NewNotFound_def NewConflict_def

lemmas Newf_defs =
  NewBadInputf_def NewUnauthenticatedf_def NewForbiddenf_def NewNotFoundf_def NewConflictf_def

lemmas Is_defs =
  IsBadInput_def IsUnauthenticated_def IsForbidden_def IsNotFound_def IsConflict_def

lemma Cause_layer: "Cause (layer m k err) = Cause err"
  by (simp add: layer_def)

lemma Cause_wrapped: "Cause (wrapped ls err) = Cause err"
  by (induction ls) (simp_all add: Cause_layer)

lemma Cause_calls_wrapped: "Cause_calls (wrapped ls err) = length ls + Cause_calls err"
  by (induction ls) (simp_all add: layer_def)

lemma Cause_idem: "Cause (Cause err) = Cause err"
proof (induction err rule: Cause.induct)
  case 1
  show ?case by simp
next
  case (2 e)
  then show ?case by (cases "method_Cause e") simp_all
qed

lemma Cause_is_root: "Cause err = Some r \<Longrightarrow> method_Cause r = None"
proof (induction err rule: Cause.induct)
  case 1
  then show ?case by simp
next
  case (2 e)
  then show ?case by (cases "method_Cause e") simp_all
qed

lemma errors_Wrap_layer:
  "errors_Wrap (Some e) m = wrapped [(m @ '': '' @ Error e, no_markers)] (Some e)"
  by (simp add: errors_Wrap_def)

lemma errors_Wrap_nil: "errors_Wrap None m = None"
  by (simp add: errors_Wrap_def)

lemma Sprintf_example: "Sprintf ''%s-%d'' [AString ''a'', AInt 1] = ''a-1''"
  by (simp add: show_int_def show_nat.simps digit_def extra_args_def)

text \<open>
  The priority order decides for a foreign root that implements several marker interfaces:
  \<open>IsBadInput()\<close> returning \<open>false\<close> is passed over, and \<open>NotFound\<close> wins over
  \<open>Conflict\<close>.
\<close>

lemma priority_example:
  "HTTPStatusCode (Some (Foreign ''x'' None
     \<lparr>m_BadInput = Some False, m_Unauthenticated = None, m_Forbidden = None,
      m_NotFound = Some True, m_Conflict = Some True\<rparr>)) = Inr 404"
  by (simp add: HTTPStatusCode_def Is_defs)

subsection \<open>Classification\<close>

text \<open>
  C1. For every category \<open>C\<close>, every string \<open>s\<close> and every chain \<open>ls\<close> of wrapping
  layers, each of which hands out the error below it through its \<open>Cause\<close> method, the
  predicate of \<open>C\<close> is true of the wrapped \<open>New C s\<close> and the predicate of every other
  category \<open>D\<close> is false of it. The predicates look at the root only: on any error
  \<open>err\<close>, wrapped or not, they give the same answer.
\<close>

theorem Is_wrapped_New:
  "Is D (wrapped ls (New C s)) = (D = C) \<and> Is D (wrapped ls err) = Is D err"
proof
  show "Is D (wrapped ls (New C s)) = (D = C)"
    by (cases D; cases C) (simp_all add: Is_defs Cause_wrapped New_defs)
  show "Is D (wrapped ls err) = Is D err"
    by (cases D) (simp_all add: Is_defs Cause_wrapped)
qed

theorem Is_wrapped_New_witness:
  "IsNotFound (wrapped [(''handler'', no_markers), (''while loading config'', no_markers)]
     (NewNotFound ''missing''))
   \<and> \<not> IsBadInput (wrapped [(''handler'', no_markers), (''while loading config'', no_markers)]
     (NewNotFound ''missing''))"
  using Is_wrapped_New [of NotFound "[(''handler'', no_markers), (''while loading config'', no_markers)]"
      NotFound "''missing''", THEN conjunct1]
    Is_wrapped_New [of BadInput "[(''handler'', no_markers), (''while loading config'', no_markers)]"
      NotFound "''missing''", THEN conjunct1]
  by (simp del: wrapped.simps)

text \<open>
  C5. For every category \<open>C\<close> and every string \<open>s\<close>, the predicate of \<open>C\<close> is true of
  \<open>New C s\<close> and the predicate of every other category is false of it.
\<close>

theorem Is_New:
  "Is D (New C s) = (D = C)"
  by (cases D; cases C) (simp_all add: Is_defs New_defs)

theorem Is_New_witness:
  "IsConflict (NewConflict ''exists'') \<and> \<not> IsNotFound (NewConflict ''exists'')"
  using Is_New [of Conflict Conflict "''exists''"] Is_New [of NotFound Conflict "''exists''"]
  by simp

text \<open>
  C8. For every category \<open>C\<close> the predicate of \<open>C\<close> is false of the \<open>nil\<close> error, and
  the walk to the root takes no unwrapping step on it.
\<close>

theorem Is_nil:
  "\<not> Is C None \<and> Cause_calls None = 0"
  by (cases C) (simp_all add: Is_defs)

theorem Is_nil_witness:
  "\<not> IsForbidden None \<and> Cause_calls None = 0"
  using Is_nil [of Forbidden] by simp

text \<open>
  C10. For all categories \<open>C\<close> and \<open>D\<close> and all strings \<open>s\<close> and \<open>t\<close>, the predicate
  of \<open>C\<close> gives the same answer on \<open>New D s\<close> and \<open>New D t\<close>, and so does the status
  mapping: the message does not influence either.
\<close>

theorem message_independence:
  "Is C (New D s) = Is C (New D t) \<and> HTTPStatusCode (New D s) = HTTPStatusCode (New D t)"
proof
  show "Is C (New D s) = Is C (New D t)"
    by (cases C; cases D) (simp_all add: Is_defs New_defs)
  show "HTTPStatusCode (New D s) = HTTPStatusCode (New D t)"
    by (cases D) (simp_all add: HTTPStatusCode_def Is_defs New_defs)
qed

theorem message_independence_witness:
  "IsForbidden (NewForbidden ''a'') = IsForbidden (NewForbidden ''bad input'')
   \<and> HTTPStatusCode (NewForbidden ''a'') = HTTPStatusCode (NewForbidden ''bad input'')"
  using message_independence [of Forbidden Forbidden "''a''" "''bad input''"] by simp

subsection \<open>Messages\<close>

text \<open>
  C6. For every category \<open>C\<close> and every string \<open>s\<close>, the empty one included, calling
  \<open>Error()\<close> on \<open>New C s\<close> returns exactly \<open>s\<close>.
\<close>

theorem Error_New:
  "call_Error (New C s) = Inr s"
  by (cases C) (simp_all add: New_defs)

theorem Error_New_witness:
  "call_Error (NewUnauthenticated '''') = Inr '''' \<and> call_Error (NewBadInput ''NotFound: x'') = Inr ''NotFound: x''"
  using Error_New [of Unauthenticated "''''"] Error_New [of BadInput "''NotFound: x''"] by simp

text \<open>
  C7. For every category \<open>C\<close>, the formatting constructor stores what the formatter makes
  of the format string and the operands: with any formatter \<open>sprintf\<close> in the place of
  \<open>fmt.Sprintf\<close>, \<open>Error()\<close> on \<open>Newf C sprintf f args\<close> returns \<open>sprintf f args\<close>;
  with the formatter \<open>Sprintf\<close>, the format \<open>%s-%d\<close> and the operands \<open>a\<close> and \<open>1\<close>
  the message is \<open>a-1\<close>.
\<close>

theorem Error_Newf:
  "call_Error (Newf C sprintf f args) = Inr (sprintf f args)
   \<and> call_Error (Newf C Sprintf ''%s-%d'' [AString ''a'', AInt 1]) = Inr ''a-1''"
proof
  show "call_Error (Newf C sprintf f args) = Inr (sprintf f args)"
    by (cases C) (simp_all add: Newf_defs)
  show "call_Error (Newf C Sprintf ''%s-%d'' [AString ''a'', AInt 1]) = Inr ''a-1''"
    by (cases C) (simp_all add: Newf_defs Sprintf_example del: Sprintf.simps)
qed

theorem Error_Newf_witness:
  "call_Error (NewConflictf Sprintf ''user %v (%d) exists'' [AString ''bob'', AInt 42])
     = Inr ''user bob (42) exists''
   \<and> call_Error (NewConflictf Sprintf ''%s-%d'' [AString ''a'', AInt 1]) = Inr ''a-1''"
  using Error_Newf [of Conflict Sprintf "''user %v (%d) exists''" "[AString ''bob'', AInt 42]"]
  by (simp add: show_int_def show_nat.simps digit_def extra_args_def)

subsection \<open>Status mapping\<close>

text \<open>
  C2. For every non-nil error \<open>e\<close>, \<open>HTTPStatusCode\<close> returns the code of the first
  category, in the order BadInput, Unauthenticated, Forbidden, NotFound, Conflict, whose
  predicate is true of \<open>e\<close>, among 400, 401, 403, 404, 409; it returns 500 when no predicate
  is true of \<open>e\<close>, in particular on a plain error made by \<open>errors.New\<close>.
\<close>

theorem HTTPStatusCode_first_match:
  "HTTPStatusCode (Some e) = Inr (first_matching_code (Some e))
   \<and> ((\<forall>C. \<not> Is C (Some e)) \<longrightarrow> HTTPStatusCode (Some e) = Inr 500)
   \<and> HTTPStatusCode (errors_New m) = Inr 500"
proof (intro conjI impI)
  show "HTTPStatusCode (Some e) = Inr (first_matching_code (Some e))"
    by (simp add: HTTPStatusCode_def first_matching_code_def priority_table_def)
  show "HTTPStatusCode (Some e) = Inr 500" if none: "\<forall>C. \<not> Is C (Some e)"
    using none [THEN spec, of BadInput] none [THEN spec, of Unauthenticated]
      none [THEN spec, of Forbidden] none [THEN spec, of NotFound] none [THEN spec, of Conflict]
    by (simp add: HTTPStatusCode_def)
  show "HTTPStatusCode (errors_New m) = Inr 500"
    by (simp add: HTTPStatusCode_def errors_New_def Is_defs no_markers_def)
qed

theorem HTTPStatusCode_first_match_witness:
  "(\<forall>C. \<not> Is C (Some (Foreign ''boom'' None no_markers)))
   \<and> HTTPStatusCode (Some (Foreign ''boom'' None no_markers)) = Inr 500
   \<and> first_matching_code (Some (Foreign ''boom'' None no_markers)) = 500"
proof -
  have none: "\<forall>C. \<not> Is C (Some (Foreign ''boom'' None no_markers))"
  proof
    fix C
    show "\<not> Is C (Some (Foreign ''boom'' None no_markers))"
      by (cases C) (simp_all add: Is_defs no_markers_def)
  qed
  with HTTPStatusCode_first_match [of "Foreign ''boom'' None no_markers" "''boom''"]
  show ?thesis by (auto simp del: Is.simps)
qed

text \<open>
  C3. On the \<open>nil\<close> error \<open>HTTPStatusCode\<close> panics with the message
  \<open>called with nil error\<close>; it returns no integer.
\<close>

theorem HTTPStatusCode_nil:
  "HTTPStatusCode None = Inl (Panic ''called with nil error'')
   \<and> (\<forall>n. HTTPStatusCode None \<noteq> Inr n)"
  by (simp add: HTTPStatusCode_def)

theorem HTTPStatusCode_nil_witness:
  "HTTPStatusCode None \<noteq> Inr 500 \<and> HTTPStatusCode None \<noteq> Inr 200"
  using HTTPStatusCode_nil by simp

text \<open>
  C4. For every string \<open>s\<close>, \<open>HTTPStatusCode\<close> returns 400 on \<open>NewBadInput s\<close>, 401 on
  \<open>NewUnauthenticated s\<close>, 403 on \<open>NewForbidden s\<close>, 404 on \<open>NewNotFound s\<close> and 409
  on \<open>NewConflict s\<close>.
\<close>

theorem HTTPStatusCode_New:
  "HTTPStatusCode (NewBadInput s) = Inr 400
   \<and> HTTPStatusCode (NewUnauthenticated s) = Inr 401
   \<and> HTTPStatusCode (NewForbidden s) = Inr 403
   \<and> HTTPStatusCode (NewNotFound s) = Inr 404
   \<and> HTTPStatusCode (NewConflict s) = Inr 409"
  by (simp add: HTTPStatusCode_def Is_defs New_defs)

theorem HTTPStatusCode_New_witness:
  "HTTPStatusCode (NewBadInput ''x'') = Inr 400 \<and> HTTPStatusCode (NewConflict ''x'') = Inr 409"
  using HTTPStatusCode_New [of "''x''"] by simp

text \<open>
  C9. For every non-nil error \<open>e\<close>, \<open>HTTPStatusCode\<close> returns, and what it returns is one
  of 400, 401, 403, 404, 409 and 500.
\<close>

theorem HTTPStatusCode_range:
  "HTTPStatusCode (Some e) \<in> Inr ` {400, 401, 403, 404, 409, 500}"
  by (simp add: HTTPStatusCode_def)

theorem HTTPStatusCode_range_witness:
  "HTTPStatusCode (Some (Foreign ''boom'' (Some None) no_markers)) \<in> Inr ` {400, 401, 403, 404, 409, 500}"
  using HTTPStatusCode_range [of "Foreign ''boom'' (Some None) no_markers"] by simp

end
